theory Spec2Isabelle
  imports Complex_Main
begin

section \<open>The reranking proxy: data model\<close>

text \<open>
  The development embeds the request handler \<open>rerank\<close> of \<open>server/gemma_proxy.py\<close>.
  The handler builds a prompt from the request (lines 38 to 55 of the source), hands it
  to an external process and validates what the process printed (lines 57 to 69).

  Python exceptions are values of the type \<open>exn\<close>. All constructors but
  \<open>KeyboardInterrupt\<close> stand for subclasses of Python's \<open>Exception\<close>, which is what the
  handler's \<open>except Exception\<close> clause catches.
\<close>

datatype exn =
    TypeError | ValueError | AttributeError | OverflowError
  | JSONDecodeError | RecursionError | UnicodeDecodeError
  | FileNotFoundError | PermissionError | TimeoutExpired | OSError
  | KeyboardInterrupt

fun is_Exception :: "exn \<Rightarrow> bool" where
  "is_Exception KeyboardInterrupt = False"
| "is_Exception _ = True"

text \<open>
  A Python float is an IEEE double: a sign, and either a magnitude \<open>m * 2 ^ e\<close> with
  a natural mantissa \<open>m\<close> and an integer exponent \<open>e\<close>, or one of the three special
  values. \<open>Finite True 0 0\<close> is the negative zero. The equality of two Python floats
  is never used by the handler, so one number may have several representations here.
\<close>

datatype pyfloat = Finite bool nat int | PosInf | NegInf | NaN

text \<open>
  The values of type \<open>Any\<close> that a JSON document can hold. Text is modelled over
  ASCII: a \<open>string\<close> is the list of the characters of a Python \<open>str\<close>. What Python
  does with a character beyond ASCII (\<open>upper\<close> may turn one into another or into
  several, \<open>strip\<close> removes more kinds of space) is outside the model.
\<close>

datatype pyval =
    PNone
  | PBool bool
  | PInt int
  | PFloat pyfloat
  | PStr string
  | PList "pyval list"
  | PDict "(string \<times> pyval) list"

text \<open>The two pydantic models. An absent \<open>steps\<close> field is \<open>PNone\<close> (its default).\<close>

record Candidate =
  index :: int
  pred_ms :: pyfloat
  steps :: pyval

record RerankIn =
  ctx :: "string \<rightharpoonup> pyval"
  candidates :: "Candidate list"

text \<open>
  What \<open>subprocess.run\<close> does with a prompt is not decided by the handler: either it
  returns a completed process (exit status, captured standard output and standard
  error), or it raises.
\<close>

datatype proc_outcome = Completed int string string | Raised exn

section \<open>Python primitives used by the handler\<close>

subsection \<open>Characters and strings\<close>

definition NL :: char where
  "NL = CHR 0x0A"

definition BT :: char where
  "BT = CHR 0x60"

text \<open>The characters that \<open>str.strip()\<close> removes, among the ASCII ones.\<close>

definition is_space :: "char \<Rightarrow> bool" where
  "is_space c = (of_char c \<in> {9, 10, 11, 12, 13, 28, 29, 30, 31, 32 :: nat})"

definition strip_chars :: "(char \<Rightarrow> bool) \<Rightarrow> string \<Rightarrow> string" where
  "strip_chars P s = rev (dropWhile P (rev (dropWhile P s)))"

definition py_strip :: "string \<Rightarrow> string" where
  "py_strip s = strip_chars is_space s"

definition is_backtick :: "char \<Rightarrow> bool" where
  "is_backtick c = (c = BT)"

definition strip_backticks :: "string \<Rightarrow> string" where
  "strip_backticks s = strip_chars is_backtick s"

definition not_newline :: "char \<Rightarrow> bool" where
  "not_newline c = (c \<noteq> NL)"

text \<open>\<open>txt.split("\n", 1)[1]\<close>, for a text that contains a newline.\<close>

definition after_first_newline :: "string \<Rightarrow> string" where
  "after_first_newline s = drop 1 (dropWhile not_newline s)"

text \<open>\<open>str.upper()\<close> on an ASCII character.\<close>

definition upper_char :: "char \<Rightarrow> char" where
  "upper_char c =
     (let n = (of_char c :: nat) in if 97 \<le> n \<and> n \<le> 122 then char_of (n - 32) else c)"

text \<open>\<open>"\n".join(lines)\<close>\<close>

fun join_lines :: "string list \<Rightarrow> string" where
  "join_lines [] = []"
| "join_lines [l] = l"
| "join_lines (l # m # ls) = l @ NL # join_lines (m # ls)"

subsection \<open>Numbers\<close>

definition digit_char :: "nat \<Rightarrow> char" where
  "digit_char d = ''0123456789'' ! d"

fun show_nat :: "nat \<Rightarrow> string" where
  "show_nat n = (if n < 10 then [digit_char n] else show_nat (n div 10) @ [digit_char (n mod 10)])"

declare show_nat.simps [simp del]

text \<open>\<open>str(i)\<close> for an integer, as an f-string field prints it.\<close>

definition show_int :: "int \<Rightarrow> string" where
  "show_int i = (if i < 0 then CHR ''-'' # show_nat (nat (- i)) else show_nat (nat i))"

text \<open>\<open>p / q\<close> rounded to the nearest natural number, a tie going to the even one.\<close>

definition round_half_even :: "nat \<Rightarrow> nat \<Rightarrow> nat" where
  "round_half_even p q =
     (let a = p div q; b = p mod q
      in if q < 2 * b \<or> (2 * b = q \<and> odd a) then a + 1 else a)"

definition pad_zeros :: "nat \<Rightarrow> string \<Rightarrow> string" where
  "pad_zeros w s = replicate (w - length s) (CHR ''0'') @ s"

text \<open>
  \<open>format(x, ".<d>f")\<close> for a float: the exact value of the double, correctly
  rounded to \<open>d\<close> decimals (ties to even), with the sign of the double.
\<close>

definition format_fixed :: "nat \<Rightarrow> pyfloat \<Rightarrow> string" where
  "format_fixed d x =
     (case x of
        NaN \<Rightarrow> ''nan''
      | PosInf \<Rightarrow> ''inf''
      | NegInf \<Rightarrow> ''-inf''
      | Finite neg m e \<Rightarrow>
          (let N = (if 0 \<le> e then m * 2 ^ nat e * 10 ^ d
                    else round_half_even (m * 10 ^ d) (2 ^ nat (- e)))
           in (if neg then ''-'' else '''') @ show_nat (N div 10 ^ d) @
              (if d = 0 then '''' else CHR ''.'' # pad_zeros d (show_nat (N mod 10 ^ d)))))"

fun bit_length :: "nat \<Rightarrow> nat" where
  "bit_length n = (if n = 0 then 0 else Suc (bit_length (n div 2)))"

declare bit_length.simps [simp del]

text \<open>
  \<open>float(i)\<close> for an integer: the nearest double (53 bits of mantissa, ties to even),
  or \<open>OverflowError\<close> beyond the range of doubles.
\<close>

definition float_of_int :: "int \<Rightarrow> exn + pyfloat" where
  "float_of_int i =
     (let n = nat \<bar>i\<bar>;
          k = bit_length n - 53;
          q = round_half_even n (2 ^ k)
      in if 2 ^ 1024 \<le> q * 2 ^ k then Inl OverflowError
         else Inr (Finite (i < 0) q (int k)))"

text \<open>\<open>int(x)\<close> for a float: truncation, or an error on the special values.\<close>

definition int_of_float :: "pyfloat \<Rightarrow> exn + int" where
  "int_of_float x =
     (case x of
        NaN \<Rightarrow> Inl ValueError
      | PosInf \<Rightarrow> Inl OverflowError
      | NegInf \<Rightarrow> Inl OverflowError
      | Finite neg m e \<Rightarrow>
          (let t = (if 0 \<le> e then m * 2 ^ nat e else m div 2 ^ nat (- e))
           in Inr (if neg then - int t else int t)))"

text \<open>\<open>bool(v)\<close>\<close>

definition truthy :: "pyval \<Rightarrow> bool" where
  "truthy v =
     (case v of
        PNone \<Rightarrow> False
      | PBool b \<Rightarrow> b
      | PInt i \<Rightarrow> i \<noteq> 0
      | PFloat x \<Rightarrow> (case x of Finite neg m e \<Rightarrow> m \<noteq> 0 | _ \<Rightarrow> True)
      | PStr s \<Rightarrow> s \<noteq> []
      | PList xs \<Rightarrow> xs \<noteq> []
      | PDict kvs \<Rightarrow> kvs \<noteq> [])"

text \<open>
  \<open>format(v, ".<d>f")\<close> for a value of any type: a float is printed, an integer or a
  boolean is converted to a float first, and every other type refuses the format.
\<close>

definition format_spec_f :: "nat \<Rightarrow> pyval \<Rightarrow> exn + string" where
  "format_spec_f d v =
     (case v of
        PNone \<Rightarrow> Inl TypeError
      | PBool b \<Rightarrow>
          (case float_of_int (if b then 1 else 0) of
             Inl e \<Rightarrow> Inl e | Inr x \<Rightarrow> Inr (format_fixed d x))
      | PInt i \<Rightarrow>
          (case float_of_int i of Inl e \<Rightarrow> Inl e | Inr x \<Rightarrow> Inr (format_fixed d x))
      | PFloat x \<Rightarrow> Inr (format_fixed d x)
      | PStr s \<Rightarrow> Inl ValueError
      | PList xs \<Rightarrow> Inl TypeError
      | PDict kvs \<Rightarrow> Inl TypeError)"

text \<open>\<open>d.get(k)\<close>: the value, or \<open>None\<close> for an absent key.\<close>

definition py_get :: "(string \<rightharpoonup> pyval) \<Rightarrow> string \<Rightarrow> pyval" where
  "py_get d k = (case d k of None \<Rightarrow> PNone | Some v \<Rightarrow> v)"

section \<open>The prompt encoder (lines 38 to 55)\<close>

definition GOAL :: string where
  "GOAL = ''GOAL: pick best tradeoff of speed vs hazard. Prefer lower pred_ms unless heat/gas imply sensing first. Avoid redundant waits.''"

definition JSON_ONLY :: string where
  "JSON_ONLY = ''Return ONLY a JSON list (e.g., [3,1,2]). No prose.''"

text \<open>\<open>int(bool(v))\<close> as the f-string prints it.\<close>

definition flag :: "pyval \<Rightarrow> string" where
  "flag v = show_int (if truthy v then 1 else 0)"

text \<open>
  Line 39. The fields are formatted from left to right, so the first one that refuses
  its format raises. The literal text between the fields is the source's: a comma
  after size, clutter and heat, a comma and a space after gas.
\<close>

definition context_line :: "(string \<rightharpoonup> pyval) \<Rightarrow> exn + string" where
  "context_line c =
     (case format_spec_f 1 (py_get c ''size'') of
        Inl e \<Rightarrow> Inl e
      | Inr sz \<Rightarrow>
          (case format_spec_f 2 (py_get c ''clutter'') of
             Inl e \<Rightarrow> Inl e
           | Inr cl \<Rightarrow>
               Inr (''CTX: '' @ sz @ '','' @ cl @ '','' @ flag (py_get c ''heat'') @ '','' @
                    flag (py_get c ''gas'') @ '', '' @ flag (py_get c ''noise''))))"

text \<open>Lines 47 to 50: the loop over \<open>c.steps\<close>, with \<open>flat\<close> as the accumulator.\<close>

fun flatten_steps :: "pyval list \<Rightarrow> pyval list \<Rightarrow> pyval list" where
  "flatten_steps flat [] = flat"
| "flatten_steps flat (step # rest) =
     (case step of
        PList xs \<Rightarrow> flatten_steps (flat @ xs) rest
      | _ \<Rightarrow> flatten_steps flat rest)"

definition abbr :: "(string \<times> string) list" where
  "abbr = [(''lidar_scan'', ''L''), (''thermal_snap'', ''T''), (''gas_sniff'', ''G''),
           (''audio_probe'', ''A''), (''wait'', ''W'')]"

text \<open>
  \<open>abbr.get(s, s[:1].upper())\<close>. Python evaluates the default before the lookup:
  a token that is not a string raises there. A list is sliced and has no \<open>upper\<close>; a
  number, a boolean and \<open>None\<close> cannot be sliced; a dict refuses the slice as a key
  (with \<open>TypeError\<close>, as here, before Python 3.12 and with \<open>KeyError\<close> from then on, both
  subclasses of \<open>Exception\<close>).
\<close>

definition token_abbr :: "pyval \<Rightarrow> exn + string" where
  "token_abbr s =
     (case s of
        PStr t \<Rightarrow>
          (let d = map upper_char (take 1 t)
           in case map_of abbr t of Some a \<Rightarrow> Inr a | None \<Rightarrow> Inr d)
      | PList xs \<Rightarrow> Inl AttributeError
      | _ \<Rightarrow> Inl TypeError)"

text \<open>The list comprehension of line 53: it stops at the first token that raises.\<close>

fun abbr_tokens :: "pyval list \<Rightarrow> exn + string list" where
  "abbr_tokens [] = Inr []"
| "abbr_tokens (s # rest) =
     (case token_abbr s of
        Inl e \<Rightarrow> Inl e
      | Inr a \<Rightarrow> (case abbr_tokens rest of Inl e \<Rightarrow> Inl e | Inr as \<Rightarrow> Inr (a # as)))"

text \<open>Lines 45 to 53.\<close>

definition signature :: "pyval \<Rightarrow> exn + string" where
  "signature st =
     (case st of
        PList ss \<Rightarrow>
          (case abbr_tokens (take 8 (flatten_steps [] ss)) of
             Inl e \<Rightarrow> Inl e
           | Inr as \<Rightarrow> Inr (concat as))
      | _ \<Rightarrow> Inr [])"

text \<open>Lines 45 to 54 for one candidate: the signature first, then the line.\<close>

definition candidate_line :: "Candidate \<Rightarrow> exn + string" where
  "candidate_line c =
     (case signature (steps c) of
        Inl e \<Rightarrow> Inl e
      | Inr sig \<Rightarrow>
          (case int_of_float (pred_ms c) of
             Inl e \<Rightarrow> Inl e
           | Inr n \<Rightarrow> Inr (show_int (index c) @ '':'' @ show_int n @ '','' @ sig)))"

text \<open>The loop of line 43, appending to \<open>lines\<close>.\<close>

fun append_candidates :: "string list \<Rightarrow> Candidate list \<Rightarrow> exn + string list" where
  "append_candidates lines [] = Inr lines"
| "append_candidates lines (c # cs) =
     (case candidate_line c of
        Inl e \<Rightarrow> Inl e
      | Inr l \<Rightarrow> append_candidates (lines @ [l]) cs)"

text \<open>Lines 38 to 55: the prompt, or the exception that leaves the handler.\<close>

definition build_prompt :: "RerankIn \<Rightarrow> exn + string" where
  "build_prompt req =
     (case context_line (ctx req) of
        Inl e \<Rightarrow> Inl e
      | Inr cl \<Rightarrow>
          (case append_candidates [cl, GOAL, JSON_ONLY, ''CANDIDATES:''] (candidates req) of
             Inl e \<Rightarrow> Inl e
           | Inr ls \<Rightarrow> Inr (join_lines ls)))"

section \<open>The response validator and the handler (lines 57 to 69)\<close>

text \<open>Lines 60 to 63: the text handed to \<open>json.loads\<close>.\<close>

definition clean_text :: "string \<Rightarrow> string" where
  "clean_text out =
     (let txt = py_strip out
      in if take 3 txt = [BT, BT, BT]
         then (let txt2 = py_strip (strip_backticks txt)
               in if NL \<in> set txt2 then py_strip (after_first_newline txt2) else txt2)
         else txt)"

text \<open>\<open>isinstance(i, int)\<close>: \<open>bool\<close> is a subclass of \<open>int\<close> in Python.\<close>

definition isinstance_int :: "pyval \<Rightarrow> bool" where
  "isinstance_int v = (case v of PInt i \<Rightarrow> True | PBool b \<Rightarrow> True | _ \<Rightarrow> False)"

text \<open>
  What the \<open>except Exception\<close> clause of line 68 does with an exception raised inside the
  \<open>try\<close> block.
\<close>

definition handle_exn :: "exn \<Rightarrow> exn + pyval list" where
  "handle_exn e = (if is_Exception e then Inr [] else Inl e)"

text \<open>
  Lines 60 to 67 on the captured standard output. \<open>json.loads\<close> is Python's library
  function and a parameter here: it returns the parsed value or raises.
\<close>

definition validate :: "(string \<Rightarrow> exn + pyval) \<Rightarrow> string \<Rightarrow> exn + pyval list" where
  "validate loads out =
     (case loads (clean_text out) of
        Inl e \<Rightarrow> handle_exn e
      | Inr v \<Rightarrow>
          (case v of
             PList xs \<Rightarrow> if list_all isinstance_int xs then Inr xs else handle_exn ValueError
           | _ \<Rightarrow> handle_exn ValueError))"

text \<open>
  The handler. \<open>run\<close> is the external process: what \<open>subprocess.run\<close> of the fixed
  command \<open>ollama run gemma3:4b\<close> does with the prompt on its input, within the timeout.
  The call of \<open>time.time\<close> has no effect on the result and is left out. The result is
  the response body, or the exception that leaves the handler.
\<close>

definition rerank ::
  "(string \<Rightarrow> proc_outcome) \<Rightarrow> (string \<Rightarrow> exn + pyval) \<Rightarrow> RerankIn \<Rightarrow> exn + pyval list" where
  "rerank run loads req =
     (case build_prompt req of
        Inl e \<Rightarrow> Inl e
      | Inr prompt \<Rightarrow>
          (case run prompt of
             Raised e \<Rightarrow> handle_exn e
           | Completed rc out err \<Rightarrow> validate loads out))"

section \<open>Notions of the specification\<close>

text \<open>
  The specification's words for the signature: a top-level element of \<open>steps\<close> that is a
  sequence contributes its elements, any other contributes nothing.
\<close>

definition stage_tokens :: "pyval \<Rightarrow> pyval list" where
  "stage_tokens step = (case step of PList xs \<Rightarrow> xs | _ \<Rightarrow> [])"

text \<open>
  The specification's abbreviation of a token: the five table entries, and the first
  character, uppercased, of any other token.
\<close>

definition spec_abbr :: "string \<Rightarrow> string" where
  "spec_abbr t =
     (if t = ''lidar_scan'' then ''L''
      else if t = ''thermal_snap'' then ''T''
      else if t = ''gas_sniff'' then ''G''
      else if t = ''audio_probe'' then ''A''
      else if t = ''wait'' then ''W''
      else map upper_char (take 1 t))"

text \<open>The number a finite double stands for, and truncation toward zero.\<close>

definition float_value :: "bool \<Rightarrow> nat \<Rightarrow> int \<Rightarrow> rat" where
  "float_value neg m e =
     (if neg then - 1 else 1) * of_nat m * (if 0 \<le> e then 2 ^ nat e else 1 / 2 ^ nat (- e))"

definition trunc_toward_zero :: "rat \<Rightarrow> int" where
  "trunc_toward_zero v = (if v < 0 then \<lceil>v\<rceil> else \<lfloor>v\<rfloor>)"

text \<open>The number that a string of decimal digits writes.\<close>

definition digit_value :: "char \<Rightarrow> nat" where
  "digit_value c = of_char c - 48"

definition decimal_value :: "string \<Rightarrow> nat" where
  "decimal_value s = foldl (\<lambda>a c. 10 * a + digit_value c) 0 s"

text \<open>
  The specification's step 2 of the validator, read as it is written: the backticks are
  stripped from the ends, the text up to the first newline is discarded if there is a
  newline, and whitespace is stripped again.
\<close>

definition spec_clean_text :: "string \<Rightarrow> string" where
  "spec_clean_text out =
     (let txt = py_strip out
      in if take 3 txt = [BT, BT, BT]
         then (let t = strip_backticks txt
               in py_strip (if NL \<in> set t then after_first_newline t else t))
         else txt)"

text \<open>A token that is empty or begins with an ASCII character.\<close>

definition ascii_first :: "string \<Rightarrow> bool" where
  "ascii_first t = list_all (\<lambda>c. (of_char c :: nat) < 128) (take 1 t)"

text \<open>A JSON value that is neither an integer nor a boolean.\<close>

definition non_integer :: "pyval \<Rightarrow> bool" where
  "non_integer v =
     (case v of
        PInt i \<Rightarrow> False
      | PBool b \<Rightarrow> False
      | _ \<Rightarrow> True)"

section \<open>Example inputs\<close>

text \<open>The context and the candidate of the specification's end-to-end example.\<close>

definition ctx_example :: "string \<rightharpoonup> pyval" where
  "ctx_example =
     [''size'' \<mapsto> PFloat (Finite False 2 0),
      ''clutter'' \<mapsto> PFloat (Finite False 1 (- 1)),
      ''heat'' \<mapsto> PBool True,
      ''gas'' \<mapsto> PBool False,
      ''noise'' \<mapsto> PBool False]"

definition cand_example :: Candidate where
  "cand_example =
     \<lparr>index = 0, pred_ms = Finite False 120 0,
      steps = PList [PList [PStr ''lidar_scan'', PStr ''wait'']]\<rparr>"

definition req_example :: RerankIn where
  "req_example = \<lparr>ctx = ctx_example, candidates = [cand_example]\<rparr>"

text \<open>The example context without its \<open>size\<close> field, and without its \<open>clutter\<close> field.\<close>

definition req_no_size :: RerankIn where
  "req_no_size = \<lparr>ctx = ctx_example(''size'' := None), candidates = []\<rparr>"

definition req_no_clutter :: RerankIn where
  "req_no_clutter = \<lparr>ctx = ctx_example(''clutter'' := None), candidates = []\<rparr>"

text \<open>A candidate whose only stage holds the number 1 where a token is expected.\<close>

definition req_bad_token :: RerankIn where
  "req_bad_token =
     \<lparr>ctx = ctx_example,
      candidates = [\<lparr>index = 0, pred_ms = Finite False 120 0, steps = PList [PList [PInt 1]]\<rparr>]\<rparr>"

text \<open>
  Three stages of four tokens each, and the same with the empty string as the second
  token.
\<close>

definition steps_3x4 :: pyval where
  "steps_3x4 =
     PList [PList [PStr ''lidar_scan'', PStr ''wait'', PStr ''thermal_snap'', PStr ''foo''],
            PList [PStr ''gas_sniff'', PStr ''audio_probe'', PStr ''wait'', PStr ''bar''],
            PList [PStr ''lidar_scan'', PStr ''lidar_scan'', PStr ''wait'', PStr ''wait'']]"

definition steps_3x4_gap :: pyval where
  "steps_3x4_gap =
     PList [PList [PStr ''lidar_scan'', PStr '''', PStr ''thermal_snap'', PStr ''foo''],
            PList [PStr ''gas_sniff'', PStr ''audio_probe'', PStr ''wait'', PStr ''bar''],
            PList [PStr ''lidar_scan'', PStr ''lidar_scan'', PStr ''wait'', PStr ''wait'']]"

text \<open>
  Raw outputs of the model: the fenced answer of the specification, and a fenced answer
  with no language tag whose JSON value spans two lines.
\<close>

definition fenced_example :: string where
  "fenced_example = [BT, BT, BT] @ ''json'' @ [NL] @ ''[2,0,1]'' @ [NL] @ [BT, BT, BT]"

definition fenced_two_lines :: string where
  "fenced_two_lines = [BT, BT, BT] @ [NL] @ ''[1,'' @ [NL] @ ''2]'' @ [NL] @ [BT, BT, BT]"

text \<open>The JSON text of the list of 1 and 2, with a line break after the comma.\<close>

definition two_line_json :: string where
  "two_line_json = ''[1,'' @ [NL] @ ''2]''"

text \<open>
  An excerpt of \<open>json.loads\<close>, for the examples: the texts below with the values Python
  parses them to. Any other text is refused by this excerpt.
\<close>

definition json_excerpt :: "(string \<times> pyval) list" where
  "json_excerpt =
     [(''[1]'', PList [PInt 1]),
      (''[2,0,1]'', PList [PInt 2, PInt 0, PInt 1]),
      (''[7, 7, 42]'', PList [PInt 7, PInt 7, PInt 42]),
      (''[1, 2.5, 3]'', PList [PInt 1, PFloat (Finite False 5 (- 1)), PInt 3]),
      (''[true, false]'', PList [PBool True, PBool False]),
      (''3'', PInt 3),
      (two_line_json, PList [PInt 1, PInt 2])]"

definition loads_excerpt :: "string \<Rightarrow> exn + pyval" where
  "loads_excerpt s = (case map_of json_excerpt s of Some v \<Rightarrow> Inr v | None \<Rightarrow> Inl JSONDecodeError)"

text \<open>Outcomes of the external process, whatever the prompt.\<close>

definition run_not_found :: "string \<Rightarrow> proc_outcome" where
  "run_not_found prompt = Raised FileNotFoundError"

definition run_timeout :: "string \<Rightarrow> proc_outcome" where
  "run_timeout prompt = Raised TimeoutExpired"

definition run_exit_1 :: "string \<Rightarrow> proc_outcome" where
  "run_exit_1 prompt = Completed 1 ''[1]'' ''error''"

definition run_exit_1_silent :: "string \<Rightarrow> proc_outcome" where
  "run_exit_1_silent prompt = Completed 1 [] []"

definition run_dup :: "string \<Rightarrow> proc_outcome" where
  "run_dup prompt = Completed 0 (''[7, 7, 42]'' @ [NL]) ''''"

definition run_fraction :: "string \<Rightarrow> proc_outcome" where
  "run_fraction prompt = Completed 0 ''[1, 2.5, 3]'' ''''"

definition run_scalar :: "string \<Rightarrow> proc_outcome" where
  "run_scalar prompt = Completed 0 ''3'' ''''"

definition run_booleans :: "string \<Rightarrow> proc_outcome" where
  "run_booleans prompt = Completed 0 ''[true, false]'' ''''"

text \<open>
  Two candidates whose predicted times, 119.5 and -7.5, are not whole numbers, and a
  \<open>steps\<close> value that mixes stages with values that are not stages.
\<close>

definition cand_half :: Candidate where
  "cand_half = \<lparr>index = 2, pred_ms = Finite False 239 (- 1), steps = PNone\<rparr>"

definition cand_negative :: Candidate where
  "cand_negative = \<lparr>index = - 3, pred_ms = Finite True 15 (- 1), steps = PStr ''wait''\<rparr>"

definition steps_mixed :: pyval where
  "steps_mixed = PList [PInt 5, PList [PStr ''gas_sniff'', PStr ''''], PStr ''wait'', PNone, PList [PStr ''zoom'']]"

text \<open>
  The example context with its fields given in the opposite order, and the prompt of the
  example request.
\<close>

definition ctx_reordered :: "string \<rightharpoonup> pyval" where
  "ctx_reordered =
     [''noise'' \<mapsto> PBool False,
      ''gas'' \<mapsto> PBool False,
      ''heat'' \<mapsto> PBool True,
      ''clutter'' \<mapsto> PFloat (Finite False 1 (- 1)),
      ''size'' \<mapsto> PFloat (Finite False 2 0)]"

definition req_reordered :: RerankIn where
  "req_reordered = \<lparr>ctx = ctx_reordered, candidates = [cand_example]\<rparr>"

definition prompt_example :: string where
  "prompt_example =
     ''CTX: 2.0,0.50,1,0, 0'' @ [NL] @ GOAL @ [NL] @ JSON_ONLY @ [NL] @ ''CANDIDATES:'' @ [NL] @
     ''0:120,LW''"

section \<open>Lemmas on the primitives\<close>

lemma flatten_steps_concat: "flatten_steps flat ss = flat @ concat (map stage_tokens ss)"
  by (induction ss arbitrary: flat) (auto simp: stage_tokens_def split: pyval.splits)

lemma token_abbr_PStr: "token_abbr (PStr t) = Inr (spec_abbr t)"
  by (simp add: token_abbr_def spec_abbr_def abbr_def)

lemma abbr_tokens_strings: "abbr_tokens (map PStr toks) = Inr (map spec_abbr toks)"
  by (induction toks) (simp_all add: token_abbr_PStr)

lemma length_spec_abbr: "t \<noteq> [] \<Longrightarrow> length (spec_abbr t) = 1"
  by (cases t) (simp_all add: spec_abbr_def)

lemma signature_strings:
  "take 8 (concat (map stage_tokens ss)) = map PStr toks \<Longrightarrow>
   signature (PList ss) = Inr (concat (map spec_abbr toks))"
  by (simp add: signature_def flatten_steps_concat abbr_tokens_strings)

lemma floor_nat_pow: "\<lfloor>(of_nat m :: rat) * 2 ^ k\<rfloor> = int m * 2 ^ k"
proof -
  have "(of_nat m :: rat) * 2 ^ k = of_int (int m * 2 ^ k)" by simp
  then show ?thesis by (simp only: floor_of_int)
qed

lemma floor_nat_div_pow: "\<lfloor>(of_nat m :: rat) / 2 ^ k\<rfloor> = int (m div 2 ^ k)"
  using floor_divide_of_nat_eq [of m "2 ^ k", where ?'a = rat] by simp

lemma trunc_nonneg: "0 \<le> v \<Longrightarrow> trunc_toward_zero v = \<lfloor>v\<rfloor>"
  by (simp add: trunc_toward_zero_def)

lemma trunc_neg: "0 \<le> v \<Longrightarrow> trunc_toward_zero (- v) = - \<lfloor>v\<rfloor>"
  by (cases "v = 0") (simp_all add: trunc_toward_zero_def ceiling_minus)

lemma int_of_float_trunc:
  "int_of_float (Finite neg m e) = Inr (trunc_toward_zero (float_value neg m e))"
proof (cases "0 \<le> e")
  case True
  have nonneg: "0 \<le> (of_nat m :: rat) * 2 ^ nat e" by simp
  show ?thesis
  proof (cases neg)
    case True
    have "float_value neg m e = - ((of_nat m :: rat) * 2 ^ nat e)"
      using True \<open>0 \<le> e\<close> by (simp add: float_value_def)
    then show ?thesis using True \<open>0 \<le> e\<close> trunc_neg [OF nonneg]
      by (simp add: int_of_float_def floor_nat_pow)
  next
    case False
    have "float_value neg m e = (of_nat m :: rat) * 2 ^ nat e"
      using False \<open>0 \<le> e\<close> by (simp add: float_value_def)
    then show ?thesis using False \<open>0 \<le> e\<close> trunc_nonneg [OF nonneg]
      by (simp add: int_of_float_def floor_nat_pow)
  qed
next
  case False
  have nonneg: "0 \<le> (of_nat m :: rat) / 2 ^ nat (- e)" by simp
  show ?thesis
  proof (cases neg)
    case True
    have "float_value neg m e = - ((of_nat m :: rat) / 2 ^ nat (- e))"
      using True \<open>\<not> 0 \<le> e\<close> by (simp add: float_value_def)
    then show ?thesis using True \<open>\<not> 0 \<le> e\<close> trunc_neg [OF nonneg]
      by (simp add: int_of_float_def floor_nat_div_pow)
  next
    case False
    have "float_value neg m e = (of_nat m :: rat) / 2 ^ nat (- e)"
      using False \<open>\<not> 0 \<le> e\<close> by (simp add: float_value_def)
    then show ?thesis using False \<open>\<not> 0 \<le> e\<close> trunc_nonneg [OF nonneg]
      by (simp add: int_of_float_def floor_nat_div_pow)
  qed
qed

text \<open>
  The printed form of a natural number is made of decimal digits and writes that number;
  the printed form of an integer is that of its absolute value, after a minus sign when
  it is negative.
\<close>

lemma digit_value_digit_char: "d < 10 \<Longrightarrow> digit_value (digit_char d) = d"
proof -
  assume "d < 10"
  then have "d \<in> {0, 1, 2, 3, 4, 5, 6, 7, 8, 9}" by auto
  then show ?thesis by (auto simp: digit_value_def digit_char_def)
qed

lemma digit_char_is_digit: "d < 10 \<Longrightarrow> digit_char d \<in> set ''0123456789''"
  unfolding digit_char_def by (rule nth_mem) simp

lemma decimal_value_snoc:
  "decimal_value (s @ [c]) = 10 * decimal_value s + digit_value c"
  by (simp add: decimal_value_def)

lemma decimal_value_show_nat: "decimal_value (show_nat n) = n"
proof (induction n rule: show_nat.induct)
  case (1 n)
  show ?case
  proof (cases "n < 10")
    case True
    then show ?thesis
      by (subst show_nat.simps) (simp add: decimal_value_def digit_value_digit_char)
  next
    case False
    with 1 have "decimal_value (show_nat (n div 10)) = n div 10" by simp
    with False show ?thesis
      by (subst show_nat.simps) (simp add: decimal_value_snoc digit_value_digit_char)
  qed
qed

lemma show_nat_digits: "set (show_nat n) \<subseteq> set ''0123456789''"
proof (induction n rule: show_nat.induct)
  case (1 n)
  show ?case
  proof (cases "n < 10")
    case True
    then show ?thesis
      using digit_char_is_digit [of n] by (subst show_nat.simps) simp
  next
    case False
    with 1 have "set (show_nat (n div 10)) \<subseteq> set ''0123456789''" by simp
    with False show ?thesis
      using digit_char_is_digit [of "n mod 10"] by (subst show_nat.simps) simp
  qed
qed

lemma show_int_value:
  "show_int i = (if i < 0 then CHR ''-'' # s else s) \<Longrightarrow> s = show_nat (nat \<bar>i\<bar>)"
  by (auto simp: show_int_def split: if_splits)

text \<open>The example context, field by field, and its line.\<close>

lemma ctx_example_fields:
  "py_get ctx_example ''size'' = PFloat (Finite False 2 0)"
  "py_get ctx_example ''clutter'' = PFloat (Finite False 1 (- 1))"
  "py_get ctx_example ''heat'' = PBool True"
  "py_get ctx_example ''gas'' = PBool False"
  "py_get ctx_example ''noise'' = PBool False"
  by (simp_all add: ctx_example_def py_get_def)

lemma format_two: "format_fixed 1 (Finite False 2 0) = ''2.0''"
  by (simp add: format_fixed_def show_nat.simps digit_char_def pad_zeros_def)

lemma format_half: "format_fixed 2 (Finite False 1 (- 1)) = ''0.50''"
  by (simp add: format_fixed_def round_half_even_def show_nat.simps digit_char_def pad_zeros_def)

lemma flag_bools: "flag (PBool True) = ''1''" "flag (PBool False) = ''0''" "flag PNone = ''0''"
  by (simp_all add: flag_def truthy_def show_int_def show_nat.simps digit_char_def)

lemma context_line_ctx_example: "context_line ctx_example = Inr ''CTX: 2.0,0.50,1,0, 0''"
  unfolding context_line_def ctx_example_fields format_spec_f_def
  by (simp add: format_two format_half flag_bools del: One_nat_def)

text \<open>Examples of the primitives, evaluated.\<close>

lemma upper_examples:
  "upper_char (CHR ''f'') = CHR ''F''" "upper_char (CHR ''b'') = CHR ''B''"
  "upper_char (CHR ''z'') = CHR ''Z''"
  by (simp_all add: upper_char_def char_of_eq_iff)

lemma spec_abbr_examples:
  "spec_abbr ''lidar_scan'' = ''L''" "spec_abbr ''thermal_snap'' = ''T''"
  "spec_abbr ''gas_sniff'' = ''G''" "spec_abbr ''audio_probe'' = ''A''"
  "spec_abbr ''wait'' = ''W''" "spec_abbr ''foo'' = ''F''"
  "spec_abbr ''bar'' = ''B''" "spec_abbr ''zoom'' = ''Z''" "spec_abbr '''' = ''''"
  by (simp_all add: spec_abbr_def upper_examples)

lemma show_int_examples:
  "show_int 0 = ''0''" "show_int 2 = ''2''" "show_int 120 = ''120''" "show_int 119 = ''119''"
  "show_int (- 3) = ''-3''" "show_int (- 7) = ''-7''"
  by (simp_all add: show_int_def show_nat.simps digit_char_def)

lemma trunc_examples:
  "trunc_toward_zero (float_value False 120 0) = 120"
  "trunc_toward_zero (float_value False 239 (- 1)) = 119"
  "trunc_toward_zero (float_value True 15 (- 1)) = - 7"
  using int_of_float_trunc [of False 120 0] int_of_float_trunc [of False 239 "- 1"]
    int_of_float_trunc [of True 15 "- 1"]
  by (simp_all add: int_of_float_def)

text \<open>The signature.\<close>

lemma length_concat_spec_abbr:
  "[] \<notin> set toks \<Longrightarrow> length (concat (map spec_abbr toks)) = length toks"
  by (induction toks) (auto simp: length_spec_abbr)

lemma spec_abbr_Nil: "spec_abbr [] = []"
  by (simp add: spec_abbr_def)

lemma length_concat_spec_abbr_filter:
  "length (concat (map spec_abbr toks)) = length (filter (\<lambda>t. t \<noteq> []) toks)"
  by (induction toks) (simp_all add: length_spec_abbr spec_abbr_Nil)

lemma signature_not_list: "(\<forall>ss. st \<noteq> PList ss) \<Longrightarrow> signature st = Inr []"
  by (cases st) (simp_all add: signature_def)

lemma signature_cand_example: "signature (steps cand_example) = Inr ''LW''"
  by (simp add: cand_example_def signature_def token_abbr_PStr spec_abbr_examples)

lemma signature_bad_token: "signature (PList [PList [PInt 1]]) = Inl TypeError"
  by (simp add: signature_def token_abbr_def)

text \<open>An exception raised while the prompt is built leaves the handler.\<close>

lemma rerank_encoding_error: "build_prompt req = Inl e \<Longrightarrow> rerank run loads req = Inl e"
  by (simp add: rerank_def)

lemma context_line_no_size: "context_line (ctx_example(''size'' := None)) = Inl TypeError"
  by (simp add: context_line_def py_get_def format_spec_f_def)

lemma context_line_no_clutter: "context_line (ctx_example(''clutter'' := None)) = Inl TypeError"
  by (simp add: context_line_def py_get_def format_spec_f_def ctx_example_def)

text \<open>The handler after the prompt is built, and the validator.\<close>

lemma rerank_completed:
  "build_prompt req = Inr p \<Longrightarrow> run p = Completed rc out err \<Longrightarrow>
   rerank run loads req = validate loads out"
  by (simp add: rerank_def)

lemma rerank_raised:
  "build_prompt req = Inr p \<Longrightarrow> run p = Raised e \<Longrightarrow> rerank run loads req = handle_exn e"
  by (simp add: rerank_def)

lemma validate_accepts:
  "loads (clean_text out) = Inr (PList xs) \<Longrightarrow> list_all isinstance_int xs \<Longrightarrow>
   validate loads out = Inr xs"
  by (simp add: validate_def)

lemma validate_rejects_element:
  "loads (clean_text out) = Inr (PList xs) \<Longrightarrow> \<not> list_all isinstance_int xs \<Longrightarrow>
   validate loads out = Inr []"
  by (simp add: validate_def handle_exn_def)

lemma validate_rejects_shape:
  "loads (clean_text out) = Inr v \<Longrightarrow> (\<forall>xs. v \<noteq> PList xs) \<Longrightarrow> validate loads out = Inr []"
  by (cases v) (simp_all add: validate_def handle_exn_def)

lemma validate_parse_error:
  "loads (clean_text out) = Inl e \<Longrightarrow> validate loads out = handle_exn e"
  by (simp add: validate_def)

lemma isinstance_int_non_integer: "isinstance_int v = (\<not> non_integer v)"
  by (cases v) (simp_all add: isinstance_int_def non_integer_def)

lemma list_all_PInt: "list_all isinstance_int (map PInt ns)"
  by (induction ns) (simp_all add: isinstance_int_def)

lemma append_candidates_lines:
  "map candidate_line cs = map Inr ls \<Longrightarrow> append_candidates lines cs = Inr (lines @ ls)"
proof (induction cs arbitrary: lines ls)
  case Nil
  then show ?case by simp
next
  case (Cons c cs)
  then obtain l ls' where ls: "ls = l # ls'" by (cases ls) auto
  with Cons.prems have "candidate_line c = Inr l" "map candidate_line cs = map Inr ls'"
    by simp_all
  with Cons.IH [of ls' "lines @ [l]"] ls show ?case by simp
qed

lemma join_lines_Cons: "join_lines (l # ls) = l @ concat (map (\<lambda>x. NL # x) ls)"
  by (induction ls arbitrary: l) simp_all

lemma context_line_fields:
  "py_get c1 ''size'' = py_get c2 ''size'' \<Longrightarrow> py_get c1 ''clutter'' = py_get c2 ''clutter'' \<Longrightarrow>
   py_get c1 ''heat'' = py_get c2 ''heat'' \<Longrightarrow> py_get c1 ''gas'' = py_get c2 ''gas'' \<Longrightarrow>
   py_get c1 ''noise'' = py_get c2 ''noise'' \<Longrightarrow> context_line c1 = context_line c2"
  unfolding context_line_def by (simp split: sum.split)

lemma candidate_line_cand_example: "candidate_line cand_example = Inr ''0:120,LW''"
  using signature_cand_example
  by (simp add: candidate_line_def cand_example_def int_of_float_def show_int_examples)

lemma build_prompt_req_example: "build_prompt req_example = Inr prompt_example"
  by (simp add: build_prompt_def req_example_def context_line_ctx_example
      candidate_line_cand_example prompt_example_def)

text \<open>Stripping characters from both ends of a text.\<close>

lemma dropWhile_strip_chars:
  "dropWhile P s = strip_chars P s @ rev (takeWhile P (rev (dropWhile P s)))"
proof -
  let ?d = "dropWhile P s"
  have "strip_chars P s @ rev (takeWhile P (rev ?d)) =
        rev (takeWhile P (rev ?d) @ dropWhile P (rev ?d))"
    by (simp only: strip_chars_def rev_append)
  also have "\<dots> = rev (rev ?d)" by (simp only: takeWhile_dropWhile_id)
  also have "\<dots> = ?d" by simp
  finally show ?thesis by simp
qed

lemma strip_chars_decomp:
  "s = takeWhile P s @ strip_chars P s @ rev (takeWhile P (rev (dropWhile P s)))"
proof -
  have "s = takeWhile P s @ dropWhile P s" by simp
  then show ?thesis using dropWhile_strip_chars [of P s] by simp
qed

lemma strip_chars_first: "strip_chars P s = x # r \<Longrightarrow> \<not> P x"
proof -
  assume a: "strip_chars P s = x # r"
  with dropWhile_strip_chars [of P s]
  have d: "dropWhile P s = x # r @ rev (takeWhile P (rev (dropWhile P s)))" by simp
  then have "dropWhile P s \<noteq> []" "hd (dropWhile P s) = x"
    by (metis list.distinct(1), metis list.sel(1))
  then show ?thesis using hd_dropWhile [of P s] by simp
qed

lemma strip_chars_last: "strip_chars P s = r @ [x] \<Longrightarrow> \<not> P x"
proof -
  assume a: "strip_chars P s = r @ [x]"
  then have "rev (strip_chars P s) = x # rev r" by simp
  then have d: "dropWhile P (rev (dropWhile P s)) = x # rev r"
    by (simp add: strip_chars_def)
  then have "dropWhile P (rev (dropWhile P s)) \<noteq> []" "hd (dropWhile P (rev (dropWhile P s))) = x"
    by simp_all
  then show ?thesis using hd_dropWhile [of P "rev (dropWhile P s)"] by simp
qed

lemma backticks_replicate: "takeWhile is_backtick s = replicate (length (takeWhile is_backtick s)) BT"
proof -
  have "\<forall>x \<in> set (takeWhile is_backtick s). x = BT"
    by (auto dest: set_takeWhileD simp: is_backtick_def)
  then show ?thesis by (metis replicate_eqI)
qed

lemma after_first_newline_split:
  "NL \<notin> set pre \<Longrightarrow> after_first_newline (pre @ NL # post) = post"
proof -
  assume "NL \<notin> set pre"
  then have "\<forall>x \<in> set pre. not_newline x" by (auto simp: not_newline_def)
  then have "dropWhile not_newline (pre @ NL # post) = dropWhile not_newline (NL # post)"
    by (simp add: dropWhile_append2)
  then show ?thesis by (simp add: after_first_newline_def not_newline_def)
qed

lemma clean_text_fenced:
  assumes "take 3 (py_strip out) = [BT, BT, BT]"
    and "body = py_strip (strip_backticks (py_strip out))"
  shows "NL \<notin> set body \<Longrightarrow> clean_text out = body"
    and "body = pre @ NL # post \<Longrightarrow> NL \<notin> set pre \<Longrightarrow> clean_text out = py_strip post"
  using assms by (simp_all add: clean_text_def Let_def after_first_newline_split)

lemma clean_text_unfenced:
  "take 3 (py_strip out) \<noteq> [BT, BT, BT] \<Longrightarrow> clean_text out = py_strip out"
  by (simp add: clean_text_def Let_def)

lemmas text_eval =
  py_strip_def strip_backticks_def strip_chars_def is_space_def is_backtick_def
  after_first_newline_def not_newline_def BT_def NL_def

lemma clean_text_fenced_example: "clean_text fenced_example = ''[2,0,1]''"
  by (simp add: clean_text_def fenced_example_def text_eval)

lemma clean_text_fenced_two_lines: "clean_text fenced_two_lines = ''2]''"
  by (simp add: clean_text_def fenced_two_lines_def text_eval)

lemma spec_clean_text_fenced_two_lines:
  "spec_clean_text fenced_two_lines = two_line_json"
  by (simp add: spec_clean_text_def fenced_two_lines_def two_line_json_def text_eval)

lemma clean_text_plain:
  "clean_text ''[1]'' = ''[1]''" "clean_text (''[7, 7, 42]'' @ [NL]) = ''[7, 7, 42]''"
  "clean_text ''[1, 2.5, 3]'' = ''[1, 2.5, 3]''" "clean_text ''3'' = ''3''"
  "clean_text ''[true, false]'' = ''[true, false]''"
  "clean_text [] = []"
  by (simp_all add: clean_text_def text_eval)

lemma fenced_example_parts:
  "take 3 (py_strip fenced_example) = [BT, BT, BT]"
  "py_strip (strip_backticks (py_strip fenced_example)) = ''json'' @ NL # ''[2,0,1]''"
  "NL \<notin> set ''json''" "py_strip ''[2,0,1]'' = ''[2,0,1]''"
  by (simp_all add: fenced_example_def text_eval)

text \<open>The excerpt of the JSON parser and the example requests.\<close>

lemma loads_excerpt_examples:
  "loads_excerpt ''[1]'' = Inr (PList [PInt 1])"
  "loads_excerpt ''[2,0,1]'' = Inr (PList [PInt 2, PInt 0, PInt 1])"
  "loads_excerpt ''[7, 7, 42]'' = Inr (PList [PInt 7, PInt 7, PInt 42])"
  "loads_excerpt ''[1, 2.5, 3]'' = Inr (PList [PInt 1, PFloat (Finite False 5 (- 1)), PInt 3])"
  "loads_excerpt ''[true, false]'' = Inr (PList [PBool True, PBool False])"
  "loads_excerpt ''3'' = Inr (PInt 3)"
  "loads_excerpt ''2]'' = Inl JSONDecodeError"
  "loads_excerpt two_line_json = Inr (PList [PInt 1, PInt 2])"
  "loads_excerpt [] = Inl JSONDecodeError"
  by (simp_all add: loads_excerpt_def json_excerpt_def two_line_json_def NL_def)

lemma build_prompt_req_reordered: "build_prompt req_reordered = Inr prompt_example"
proof -
  have "context_line ctx_reordered = context_line ctx_example"
    by (rule context_line_fields) (simp_all add: py_get_def ctx_reordered_def ctx_example_def)
  then show ?thesis
    by (simp add: build_prompt_def req_reordered_def context_line_ctx_example
        candidate_line_cand_example prompt_example_def)
qed

section \<open>The claims on the prompt encoder\<close>

text \<open>
  Claim C3: for the context \<open>{size: 2.0, clutter: 0.5, heat: true, gas: false, noise:
  false}\<close> the context line is \<open>CTX: 2.0,0.50,1,0,0\<close>, with no space after the prefix.
  The handler's line has the size with one decimal, the clutter with two and the flags
  as 0 and 1, but the source's format string has a space after the comma that precedes
  the noise flag: the line is \<open>CTX: 2.0,0.50,1,0, 0\<close>, and is not the line of the claim.
\<close>

theorem context_line_example:
  "context_line ctx_example = Inr ''CTX: 2.0,0.50,1,0, 0'' \<and>
   context_line ctx_example \<noteq> Inr ''CTX: 2.0,0.50,1,0,0''"
  by (simp add: context_line_ctx_example)

text \<open>
  Claim C2: an encoding error (an absent context field, a stage that holds a token that
  is not a string) does not raise and does not fail the request. In the handler the
  prompt is built before the \<open>try\<close> block: with \<open>size\<close> or \<open>clutter\<close> absent the format of
  \<open>None\<close> raises \<open>TypeError\<close>, a token that is the number 1 raises \<open>TypeError\<close> when it is
  sliced, and the exception leaves the handler whatever the external process and the
  JSON parser would have done.
\<close>

theorem encoding_errors_leave_handler:
  "rerank run loads req_no_size = Inl TypeError \<and>
   rerank run loads req_no_clutter = Inl TypeError \<and>
   rerank run loads req_bad_token = Inl TypeError"
proof -
  have "build_prompt req_no_size = Inl TypeError"
    by (simp add: build_prompt_def req_no_size_def context_line_no_size)
  moreover have "build_prompt req_no_clutter = Inl TypeError"
    by (simp add: build_prompt_def req_no_clutter_def context_line_no_clutter)
  moreover have "build_prompt req_bad_token = Inl TypeError"
    by (simp add: build_prompt_def req_bad_token_def context_line_ctx_example candidate_line_def
        signature_bad_token)
  ultimately show ?thesis by (simp add: rerank_encoding_error)
qed

text \<open>
  Claim C4, as stated: three stages of four tokens each yield exactly 8 abbreviation
  characters. An empty token is abbreviated by the empty string, so three stages of four
  tokens of which one of the first 8 is empty yield 7 characters.
\<close>

theorem signature_length_counterexample:
  "signature steps_3x4_gap = Inr ''LTFGAWB'' \<and>
   map_sum id length (signature steps_3x4_gap) = Inr 7 \<and>
   map_sum id length (signature steps_3x4_gap) \<noteq> Inr 8"
proof -
  have t: "take 8 (concat (map stage_tokens
          [PList [PStr ''lidar_scan'', PStr '''', PStr ''thermal_snap'', PStr ''foo''],
           PList [PStr ''gas_sniff'', PStr ''audio_probe'', PStr ''wait'', PStr ''bar''],
           PList [PStr ''lidar_scan'', PStr ''lidar_scan'', PStr ''wait'', PStr ''wait'']])) =
        map PStr [''lidar_scan'', '''', ''thermal_snap'', ''foo'',
                  ''gas_sniff'', ''audio_probe'', ''wait'', ''bar'']"
    by (simp add: stage_tokens_def)
  have "signature steps_3x4_gap =
      Inr (concat (map spec_abbr [''lidar_scan'', '''', ''thermal_snap'', ''foo'',
                                  ''gas_sniff'', ''audio_probe'', ''wait'', ''bar'']))"
    unfolding steps_3x4_gap_def by (rule signature_strings [OF t])
  then have "signature steps_3x4_gap = Inr ''LTFGAWB''"
    by (simp add: spec_abbr_examples)
  then show ?thesis by simp
qed

text \<open>
  Claim C4, amended: the signature of a candidate. When \<open>steps\<close> is a list, its elements
  that are lists are flattened by one level and the others are dropped; the first 8
  tokens are kept and, being strings \<open>toks\<close>, each is abbreviated by the table or by its
  first character uppercased (nothing for the empty string, which does not raise), and
  the abbreviations are concatenated. When \<open>steps\<close> is not a list the signature is empty.
  Three stages of four string tokens give the abbreviations of the first 8 tokens in
  order. When these tokens begin with ASCII characters, the signature has one character
  for each of them that is not empty and none for an empty one: exactly 8 characters
  when none of the 8 tokens is empty.
\<close>

theorem signature_construction:
  "(take 8 (concat (map stage_tokens ss)) = map PStr toks \<longrightarrow>
      signature (PList ss) = Inr (concat (map spec_abbr toks))) \<and>
   ((\<forall>xs. st \<noteq> PList xs) \<longrightarrow> signature st = Inr []) \<and>
   (length a = 4 \<and> length b = 4 \<and> length c = 4 \<longrightarrow>
      signature (PList [PList (map PStr a), PList (map PStr b), PList (map PStr c)]) =
        Inr (concat (map spec_abbr (take 8 (a @ b @ c)))) \<and>
      length (take 8 (a @ b @ c)) = 8 \<and>
      (list_all ascii_first (take 8 (a @ b @ c)) \<longrightarrow>
         length (concat (map spec_abbr (take 8 (a @ b @ c)))) =
           length (filter (\<lambda>t. t \<noteq> []) (take 8 (a @ b @ c)))) \<and>
      (list_all ascii_first (take 8 (a @ b @ c)) \<and> [] \<notin> set (take 8 (a @ b @ c)) \<longrightarrow>
         length (concat (map spec_abbr (take 8 (a @ b @ c)))) = 8))"
proof (intro conjI impI)
  assume "take 8 (concat (map stage_tokens ss)) = map PStr toks"
  then show "signature (PList ss) = Inr (concat (map spec_abbr toks))"
    by (rule signature_strings)
next
  assume "\<forall>xs. st \<noteq> PList xs"
  then show "signature st = Inr []" by (rule signature_not_list)
next
  assume len: "length a = 4 \<and> length b = 4 \<and> length c = 4"
  have "take 8 (concat (map stage_tokens [PList (map PStr a), PList (map PStr b), PList (map PStr c)]))
        = map PStr (take 8 (a @ b @ c))"
    by (simp add: stage_tokens_def take_map)
  then show "signature (PList [PList (map PStr a), PList (map PStr b), PList (map PStr c)]) =
        Inr (concat (map spec_abbr (take 8 (a @ b @ c))))"
    by (rule signature_strings)
next
  assume len: "length a = 4 \<and> length b = 4 \<and> length c = 4"
  then show "length (take 8 (a @ b @ c)) = 8" by simp
next
  show "length (concat (map spec_abbr (take 8 (a @ b @ c)))) =
      length (filter (\<lambda>t. t \<noteq> []) (take 8 (a @ b @ c)))"
    by (rule length_concat_spec_abbr_filter)
next
  assume len: "length a = 4 \<and> length b = 4 \<and> length c = 4"
    and ne: "list_all ascii_first (take 8 (a @ b @ c)) \<and> [] \<notin> set (take 8 (a @ b @ c))"
  show "length (concat (map spec_abbr (take 8 (a @ b @ c)))) = 8"
    using length_concat_spec_abbr [of "take 8 (a @ b @ c)"] ne len by simp
qed

text \<open>
  The theorem of claim C4 on examples: three stages of four tokens that are not empty (8
  characters), three stages of four tokens with an empty one among the first 8 (7
  characters), a \<open>steps\<close> list that mixes two stages (one with an empty token) with values
  that are not stages, an absent \<open>steps\<close>, and a \<open>steps\<close> that is a string.
\<close>

theorem signature_construction_witness:
  "signature steps_3x4 = Inr ''LWTFGAWB'' \<and>
   length ''LWTFGAWB'' = 8 \<and>
   signature steps_3x4_gap = Inr ''LTFGAWB'' \<and>
   length ''LTFGAWB'' = 7 \<and>
   signature steps_mixed = Inr ''GZ'' \<and>
   signature PNone = Inr '''' \<and>
   signature (PStr ''wait'') = Inr ''''"
proof -
  let ?a = "[''lidar_scan'', ''wait'', ''thermal_snap'', ''foo'']"
  let ?g = "[''lidar_scan'', '''', ''thermal_snap'', ''foo'']"
  let ?b = "[''gas_sniff'', ''audio_probe'', ''wait'', ''bar'']"
  let ?c = "[''lidar_scan'', ''lidar_scan'', ''wait'', ''wait'']"
  have ascii: "list_all ascii_first (take 8 (?a @ ?b @ ?c))"
    "list_all ascii_first (take 8 (?g @ ?b @ ?c))"
    by (simp_all add: ascii_first_def)
  note th1 = signature_construction [of "[]" "[]" PNone ?a ?b ?c]
  note th2 = signature_construction [of "[]" "[]" PNone ?g ?b ?c]
  have 1: "signature steps_3x4 = Inr ''LWTFGAWB''"
    using th1 by (simp add: steps_3x4_def spec_abbr_examples)
  have 2: "length ''LWTFGAWB'' = 8" by simp
  have 3: "signature steps_3x4_gap = Inr ''LTFGAWB''"
    using th2 by (simp add: steps_3x4_gap_def spec_abbr_examples)
  have 4: "length ''LTFGAWB'' = 7" by simp
  have 5: "signature steps_mixed = Inr ''GZ''"
    using signature_construction
      [of "[PInt 5, PList [PStr ''gas_sniff'', PStr ''''], PStr ''wait'', PNone, PList [PStr ''zoom'']]"
          "[''gas_sniff'', '''', ''zoom'']" PNone "[]" "[]" "[]"]
    by (simp add: steps_mixed_def stage_tokens_def spec_abbr_examples)
  have 6: "signature PNone = Inr ''''"
    using signature_construction [of "[]" "[]" PNone "[]" "[]" "[]"] by simp
  have 7: "signature (PStr ''wait'') = Inr ''''"
    using signature_construction [of "[]" "[]" "PStr ''wait''" "[]" "[]" "[]"] by simp
  from 1 2 3 4 5 6 7 show ?thesis by blast
qed

text \<open>
  Claim C8: the prompt line of a candidate is its index, a colon, its predicted time
  truncated toward zero and printed as an integer, a comma, and its signature. It is
  stated for a candidate whose signature is defined (its first 8 tokens are strings) and
  whose predicted time is a finite double, of value \<open>float_value neg m e\<close>.
\<close>

theorem candidate_line_format:
  "signature (steps c) = Inr sig \<Longrightarrow> pred_ms c = Finite neg m e \<Longrightarrow>
   candidate_line c =
     Inr (show_int (index c) @ '':'' @ show_int (trunc_toward_zero (float_value neg m e)) @
          '','' @ sig)"
  by (simp add: candidate_line_def int_of_float_trunc)

text \<open>
  The theorem of claim C8 on the candidate of the specification's example, whose line is
  \<open>0:120,LW\<close>, and on predicted times of 119.5 and -7.5, printed as 119 and -7.
\<close>

theorem candidate_line_format_witness:
  "candidate_line cand_example = Inr ''0:120,LW'' \<and>
   candidate_line cand_half = Inr ''2:119,'' \<and>
   candidate_line cand_negative = Inr ''-3:-7,''"
proof -
  have 1: "candidate_line cand_example = Inr ''0:120,LW''"
    using candidate_line_format [of cand_example "''LW''" False 120 0] signature_cand_example
    by (simp add: cand_example_def show_int_examples trunc_examples)
  have 2: "candidate_line cand_half = Inr ''2:119,''"
    using candidate_line_format [of cand_half "''''" False 239 "- 1"]
    by (simp add: cand_half_def signature_def show_int_examples trunc_examples)
  have 3: "candidate_line cand_negative = Inr ''-3:-7,''"
    using candidate_line_format [of cand_negative "''''" True 15 "- 1"]
    by (simp add: cand_negative_def signature_def show_int_examples trunc_examples)
  from 1 2 3 show ?thesis by simp
qed

section \<open>The claims on the invocation and on the validator\<close>

text \<open>
  Claim C1, as stated: every failed invocation of the external process, a non-zero exit
  status included, makes the handler return the empty fallback. The handler never reads
  the exit status: a process that exits with status 1 after printing \<open>[1]\<close> is answered
  with the list that holds 1, not with the empty list.
\<close>

theorem nonzero_exit_counterexample:
  "run_exit_1 prompt_example = Completed 1 ''[1]'' ''error'' \<and>
   rerank run_exit_1 loads_excerpt req_example = Inr [PInt 1] \<and>
   rerank run_exit_1 loads_excerpt req_example \<noteq> Inr []"
proof -
  have "rerank run_exit_1 loads_excerpt req_example = validate loads_excerpt ''[1]''"
    by (rule rerank_completed [OF build_prompt_req_example]) (simp add: run_exit_1_def)
  moreover have "validate loads_excerpt ''[1]'' = Inr [PInt 1]"
    by (rule validate_accepts)
      (simp_all add: clean_text_plain loads_excerpt_examples isinstance_int_def)
  ultimately show ?thesis by (simp add: run_exit_1_def)
qed

text \<open>
  Claim C1, amended: when the invocation raises (the process is not found or cannot be
  launched, the timeout expires, a stream cannot be read or decoded), the handler
  returns the empty fallback and nothing is propagated to the client. The exit status
  is never read: when the process completes, with whatever exit status and error
  stream, the response is what the validator makes of its standard output alone, and it
  is the empty fallback when that output does not parse.
\<close>

theorem invocation_failure_fallback:
  "build_prompt req = Inr prompt \<Longrightarrow>
   (run prompt = Raised e \<and>
    e \<in> {FileNotFoundError, PermissionError, TimeoutExpired, OSError, UnicodeDecodeError} \<longrightarrow>
      rerank run loads req = Inr []) \<and>
   (run prompt = Completed rc out err \<longrightarrow> rerank run loads req = validate loads out) \<and>
   (run prompt = Completed rc out err \<and> loads (clean_text out) = Inl JSONDecodeError \<longrightarrow>
      rerank run loads req = Inr [])"
proof (intro conjI impI)
  assume bp: "build_prompt req = Inr prompt"
    and "run prompt = Raised e \<and>
      e \<in> {FileNotFoundError, PermissionError, TimeoutExpired, OSError, UnicodeDecodeError}"
  then have "rerank run loads req = handle_exn e" and "is_Exception e"
    by (auto simp: rerank_raised)
  then show "rerank run loads req = Inr []" by (simp add: handle_exn_def)
next
  assume "build_prompt req = Inr prompt" and "run prompt = Completed rc out err"
  then show "rerank run loads req = validate loads out" by (rule rerank_completed)
next
  assume bp: "build_prompt req = Inr prompt"
    and c: "run prompt = Completed rc out err \<and> loads (clean_text out) = Inl JSONDecodeError"
  then have "rerank run loads req = validate loads out" by (simp add: rerank_completed)
  with c show "rerank run loads req = Inr []"
    by (simp add: validate_parse_error handle_exn_def)
qed

text \<open>
  The theorem of claim C1 on the example request: a process that is not found, a process
  that times out, a process that exits with status 1 after printing \<open>[1]\<close>, and a process
  that exits with status 1 and prints nothing.
\<close>

theorem invocation_failure_fallback_witness:
  "rerank run_not_found loads_excerpt req_example = Inr [] \<and>
   rerank run_timeout loads_excerpt req_example = Inr [] \<and>
   rerank run_exit_1 loads_excerpt req_example = validate loads_excerpt ''[1]'' \<and>
   rerank run_exit_1_silent loads_excerpt req_example = Inr []"
proof -
  note th = invocation_failure_fallback [OF build_prompt_req_example]
  have 1: "rerank run_not_found loads_excerpt req_example = Inr []"
    using th [of run_not_found FileNotFoundError loads_excerpt 0 "[]" "[]"]
    by (simp add: run_not_found_def)
  have 2: "rerank run_timeout loads_excerpt req_example = Inr []"
    using th [of run_timeout TimeoutExpired loads_excerpt 0 "[]" "[]"]
    by (simp add: run_timeout_def)
  have 3: "rerank run_exit_1 loads_excerpt req_example = validate loads_excerpt ''[1]''"
    using th [of run_exit_1 OSError loads_excerpt 1 "''[1]''" "''error''"]
    by (simp add: run_exit_1_def)
  have "run_exit_1_silent prompt_example = Completed 1 [] [] \<and>
      loads_excerpt (clean_text []) = Inl JSONDecodeError"
    by (simp add: run_exit_1_silent_def clean_text_plain loads_excerpt_examples)
  with th [of run_exit_1_silent OSError loads_excerpt 1 "[]" "[]"]
  have 4: "rerank run_exit_1_silent loads_excerpt req_example = Inr []"
    by blast
  from 1 2 3 4 show ?thesis by simp
qed

text \<open>
  Claim C5: when the parsed JSON value is a list whose elements are all integers, the
  handler returns that list as it is: same elements, same order, duplicates kept. The
  integers \<open>ns\<close> are arbitrary, and nothing relates them to the indices of the candidates
  of the request.
\<close>

theorem integer_list_returned_as_is:
  "build_prompt req = Inr prompt \<Longrightarrow> run prompt = Completed rc out err \<Longrightarrow>
   loads (clean_text out) = Inr (PList (map PInt ns)) \<Longrightarrow>
   rerank run loads req = Inr (map PInt ns)"
  by (simp add: rerank_completed validate_accepts list_all_PInt)

text \<open>
  The theorem of claim C5 on the example request, whose only candidate has index 0, and
  the output \<open>[7, 7, 42]\<close>: a duplicate, and indices of no candidate.
\<close>

theorem integer_list_returned_as_is_witness:
  "map index (candidates req_example) = [0] \<and>
   rerank run_dup loads_excerpt req_example = Inr [PInt 7, PInt 7, PInt 42]"
proof -
  have run: "run_dup prompt_example = Completed 0 (''[7, 7, 42]'' @ [NL]) ''''"
    by (simp add: run_dup_def)
  have ld: "loads_excerpt (clean_text (''[7, 7, 42]'' @ [NL])) = Inr (PList (map PInt [7, 7, 42]))"
    unfolding clean_text_plain loads_excerpt_examples by simp
  from integer_list_returned_as_is
    [where run = run_dup and loads = loads_excerpt, OF build_prompt_req_example run ld]
  show ?thesis by (simp add: req_example_def cand_example_def)
qed

text \<open>
  Claim C6: when the parsed JSON value is not a list, or is a list with an element that
  is not an integer (a float, a string, null, a list, an object; a boolean passes the
  handler's integer check and is the subject of claim C10), the handler returns the
  empty fallback, never a part of the list.
\<close>

theorem non_integer_output_rejected:
  "build_prompt req = Inr prompt \<Longrightarrow> run prompt = Completed rc out err \<Longrightarrow>
   loads (clean_text out) = Inr v \<Longrightarrow>
   (\<forall>xs. v \<noteq> PList xs) \<or> (\<exists>xs x. v = PList xs \<and> x \<in> set xs \<and> non_integer x) \<Longrightarrow>
   rerank run loads req = Inr []"
proof -
  assume bp: "build_prompt req = Inr prompt" and run: "run prompt = Completed rc out err"
    and ld: "loads (clean_text out) = Inr v"
    and bad: "(\<forall>xs. v \<noteq> PList xs) \<or> (\<exists>xs x. v = PList xs \<and> x \<in> set xs \<and> non_integer x)"
  have "validate loads out = Inr []"
  proof (cases "\<forall>xs. v \<noteq> PList xs")
    case True
    with ld show ?thesis by (rule validate_rejects_shape)
  next
    case False
    with bad obtain xs x where v: "v = PList xs" and x: "x \<in> set xs" "non_integer x" by blast
    then have "\<not> list_all isinstance_int xs"
      by (auto simp: list_all_iff isinstance_int_non_integer)
    with ld v show ?thesis by (simp add: validate_rejects_element)
  qed
  with bp run show ?thesis by (simp add: rerank_completed)
qed

text \<open>
  The theorem of claim C6 on the raw output \<open>[1, 2.5, 3]\<close> of the specification, and on
  the raw output \<open>3\<close>, which is not a list.
\<close>

theorem non_integer_output_rejected_witness:
  "rerank run_fraction loads_excerpt req_example = Inr [] \<and>
   rerank run_scalar loads_excerpt req_example = Inr []"
proof -
  let ?v = "PList [PInt 1, PFloat (Finite False 5 (- 1)), PInt 3]"
  have run1: "run_fraction prompt_example = Completed 0 ''[1, 2.5, 3]'' ''''"
    by (simp add: run_fraction_def)
  have ld1: "loads_excerpt (clean_text ''[1, 2.5, 3]'') = Inr ?v"
    unfolding clean_text_plain loads_excerpt_examples by simp
  have "non_integer (PFloat (Finite False 5 (- 1)))" by (simp add: non_integer_def)
  then have bad1:
    "(\<forall>xs. ?v \<noteq> PList xs) \<or> (\<exists>xs x. ?v = PList xs \<and> x \<in> set xs \<and> non_integer x)"
    by auto
  have run2: "run_scalar prompt_example = Completed 0 ''3'' ''''"
    by (simp add: run_scalar_def)
  have ld2: "loads_excerpt (clean_text ''3'') = Inr (PInt 3)"
    unfolding clean_text_plain loads_excerpt_examples by simp
  have bad2:
    "(\<forall>xs. PInt 3 \<noteq> PList xs) \<or> (\<exists>xs x. PInt 3 = PList xs \<and> x \<in> set xs \<and> non_integer x)"
    by simp
  from non_integer_output_rejected
      [where run = run_fraction and loads = loads_excerpt,
        OF build_prompt_req_example run1 ld1 bad1]
    non_integer_output_rejected
      [where run = run_scalar and loads = loads_excerpt,
        OF build_prompt_req_example run2 ld2 bad2]
  show ?thesis by simp
qed

text \<open>
  Claim C10: the integer check of the validator accepts booleans. When the parsed JSON
  value is a list whose elements are all integers or booleans, the handler returns the
  list as it is, not the empty fallback.
\<close>

theorem booleans_pass_integer_check:
  "build_prompt req = Inr prompt \<Longrightarrow> run prompt = Completed rc out err \<Longrightarrow>
   loads (clean_text out) = Inr (PList xs) \<Longrightarrow>
   \<forall>x \<in> set xs. (\<exists>i. x = PInt i) \<or> (\<exists>b. x = PBool b) \<Longrightarrow>
   rerank run loads req = Inr xs"
proof -
  assume bp: "build_prompt req = Inr prompt" and run: "run prompt = Completed rc out err"
    and ld: "loads (clean_text out) = Inr (PList xs)"
    and el: "\<forall>x \<in> set xs. (\<exists>i. x = PInt i) \<or> (\<exists>b. x = PBool b)"
  from el have "list_all isinstance_int xs"
    by (auto simp: list_all_iff isinstance_int_def)
  with ld have "validate loads out = Inr xs" by (rule validate_accepts)
  with bp run show ?thesis by (simp add: rerank_completed)
qed

text \<open>The theorem of claim C10 on the raw output \<open>[true, false]\<close>.\<close>

theorem booleans_pass_integer_check_witness:
  "rerank run_booleans loads_excerpt req_example = Inr [PBool True, PBool False]"
proof -
  have run: "run_booleans prompt_example = Completed 0 ''[true, false]'' ''''"
    by (simp add: run_booleans_def)
  have ld: "loads_excerpt (clean_text ''[true, false]'') = Inr (PList [PBool True, PBool False])"
    unfolding clean_text_plain loads_excerpt_examples by simp
  have el: "\<forall>x \<in> set [PBool True, PBool False]. (\<exists>i. x = PInt i) \<or> (\<exists>b. x = PBool b)"
    by auto
  from booleans_pass_integer_check
    [where run = run_booleans and loads = loads_excerpt,
      OF build_prompt_req_example run ld el]
  show ?thesis .
qed

text \<open>
  Claim C7, as stated: on a fenced output the validator strips the backticks from both
  ends and, if the remainder contains a newline, discards the text up to the first
  newline before parsing. The handler strips whitespace between the two steps, so a
  fence with no language tag loses its first line of content instead of an empty line:
  for a fenced \<open>[1,2]\<close> written on two lines the handler parses \<open>2]\<close> and falls back to the
  empty list, where the steps of the claim parse the whole list.
\<close>

theorem fence_counterexample:
  "clean_text fenced_two_lines = ''2]'' \<and>
   spec_clean_text fenced_two_lines = two_line_json \<and>
   clean_text fenced_two_lines \<noteq> spec_clean_text fenced_two_lines \<and>
   loads_excerpt (spec_clean_text fenced_two_lines) = Inr (PList [PInt 1, PInt 2]) \<and>
   validate loads_excerpt fenced_two_lines = Inr []"
proof -
  have 1: "clean_text fenced_two_lines = ''2]''" by (rule clean_text_fenced_two_lines)
  have 2: "spec_clean_text fenced_two_lines = two_line_json"
    by (rule spec_clean_text_fenced_two_lines)
  have 3: "clean_text fenced_two_lines \<noteq> spec_clean_text fenced_two_lines"
    unfolding 1 2 by (simp add: two_line_json_def)
  have 4: "loads_excerpt (spec_clean_text fenced_two_lines) = Inr (PList [PInt 1, PInt 2])"
    unfolding 2 by (rule loads_excerpt_examples)
  have "loads_excerpt (clean_text fenced_two_lines) = Inl JSONDecodeError"
    unfolding 1 by (rule loads_excerpt_examples)
  then have 5: "validate loads_excerpt fenced_two_lines = Inr []"
    by (simp add: validate_parse_error handle_exn_def)
  from 1 2 3 4 5 show ?thesis by blast
qed

text \<open>
  Claim C7, amended: on an output that begins, once stripped of whitespace, with three
  backticks, the validator strips all the backticks from both ends (what remains,
  \<open>body\<close>, neither begins nor ends with a backtick), then strips whitespace; if the text
  still contains a newline it keeps what follows the first newline, stripped of
  whitespace, and otherwise the text itself; and it parses the result, so that a fenced
  list of integers is returned.
\<close>

theorem fence_stripping:
  "take 3 (py_strip out) = [BT, BT, BT] \<Longrightarrow>
   body = strip_backticks (py_strip out) \<Longrightarrow>
   (\<exists>a b. py_strip out = replicate a BT @ body @ replicate b BT) \<and>
   (\<forall>x r. body \<noteq> x # r \<or> x \<noteq> BT) \<and> (\<forall>x r. body \<noteq> r @ [x] \<or> x \<noteq> BT) \<and>
   (NL \<notin> set (py_strip body) \<longrightarrow> clean_text out = py_strip body) \<and>
   (py_strip body = pre @ NL # post \<and> NL \<notin> set pre \<longrightarrow> clean_text out = py_strip post) \<and>
   (loads (clean_text out) = Inr (PList (map PInt ns)) \<longrightarrow>
      validate loads out = Inr (map PInt ns))"
proof (intro conjI allI impI)
  assume body: "body = strip_backticks (py_strip out)"
  let ?s = "py_strip out"
  let ?a = "takeWhile is_backtick ?s"
  let ?b = "takeWhile is_backtick (rev (dropWhile is_backtick ?s))"
  have "?s = ?a @ body @ rev ?b"
    unfolding body strip_backticks_def by (rule strip_chars_decomp)
  moreover have "?a = replicate (length ?a) BT"
    by (rule backticks_replicate)
  moreover have "rev ?b = replicate (length ?b) BT"
    using backticks_replicate [of "rev (dropWhile is_backtick ?s)"]
    by (metis rev_replicate)
  ultimately show "\<exists>a b. ?s = replicate a BT @ body @ replicate b BT" by metis
next
  fix x r
  assume body: "body = strip_backticks (py_strip out)"
  show "body \<noteq> x # r \<or> x \<noteq> BT"
    using strip_chars_first [of is_backtick "py_strip out" x r]
    by (auto simp: body strip_backticks_def is_backtick_def)
next
  fix x r
  assume body: "body = strip_backticks (py_strip out)"
  show "body \<noteq> r @ [x] \<or> x \<noteq> BT"
    using strip_chars_last [of is_backtick "py_strip out" r x]
    by (auto simp: body strip_backticks_def is_backtick_def)
next
  assume "take 3 (py_strip out) = [BT, BT, BT]" "body = strip_backticks (py_strip out)"
    "NL \<notin> set (py_strip body)"
  then show "clean_text out = py_strip body"
    by (simp add: clean_text_fenced(1))
next
  assume "take 3 (py_strip out) = [BT, BT, BT]" "body = strip_backticks (py_strip out)"
    "py_strip body = pre @ NL # post \<and> NL \<notin> set pre"
  then show "clean_text out = py_strip post"
    using clean_text_fenced(2) [of out "py_strip body" pre post] by simp
next
  assume "loads (clean_text out) = Inr (PList (map PInt ns))"
  then show "validate loads out = Inr (map PInt ns)"
    by (simp add: validate_accepts list_all_PInt)
qed

text \<open>
  The theorem of claim C7 on the fenced output of the specification: the text parsed is
  \<open>[2,0,1]\<close> and the answer is the list of 2, 0 and 1.
\<close>

theorem fence_stripping_witness:
  "clean_text fenced_example = ''[2,0,1]'' \<and>
   validate loads_excerpt fenced_example = Inr [PInt 2, PInt 0, PInt 1]"
proof -
  have body: "py_strip (strip_backticks (py_strip fenced_example)) = ''json'' @ NL # ''[2,0,1]''"
    by (rule fenced_example_parts)
  note th = fence_stripping
    [OF fenced_example_parts(1) refl, of "''json''" "''[2,0,1]''" loads_excerpt "[2, 0, 1]"]
  from th body fenced_example_parts(3,4) have ct: "clean_text fenced_example = ''[2,0,1]''"
    by simp
  with th have "validate loads_excerpt fenced_example = Inr [PInt 2, PInt 0, PInt 1]"
    by (simp add: loads_excerpt_examples)
  with ct show ?thesis by simp
qed

text \<open>
  Claim C9: the prompt is a function of the context and of the ordered list of
  candidates. Whenever the context line and the candidate lines are defined, the prompt
  is the context line, the goal line, the JSON-only instruction, the \<open>CANDIDATES:\<close>
  header and one line per candidate in input order, joined by single newlines. The
  encoder reads the context only through its five fields, a map in which fields have no
  order: two requests that agree on them and on the candidates have the same prompt (or
  raise the same exception). The encoder takes no state and returns none.
\<close>

theorem prompt_is_function_of_request:
  "(context_line (ctx req) = Inr cl \<and> map candidate_line (candidates req) = map Inr ls \<longrightarrow>
      build_prompt req =
        Inr (cl @ NL # GOAL @ NL # JSON_ONLY @ NL # ''CANDIDATES:'' @
             concat (map (\<lambda>l. NL # l) ls))) \<and>
   ((\<forall>k \<in> {''size'', ''clutter'', ''heat'', ''gas'', ''noise''}. ctx r1 k = ctx r2 k) \<and>
      candidates r1 = candidates r2 \<longrightarrow> build_prompt r1 = build_prompt r2)"
proof (intro conjI impI)
  assume a: "context_line (ctx req) = Inr cl \<and> map candidate_line (candidates req) = map Inr ls"
  then have "append_candidates [cl, GOAL, JSON_ONLY, ''CANDIDATES:''] (candidates req) =
      Inr ([cl, GOAL, JSON_ONLY, ''CANDIDATES:''] @ ls)"
    by (simp add: append_candidates_lines)
  with a show "build_prompt req =
      Inr (cl @ NL # GOAL @ NL # JSON_ONLY @ NL # ''CANDIDATES:'' @
           concat (map (\<lambda>l. NL # l) ls))"
    by (simp add: build_prompt_def join_lines_Cons)
next
  assume a: "(\<forall>k \<in> {''size'', ''clutter'', ''heat'', ''gas'', ''noise''}. ctx r1 k = ctx r2 k) \<and>
      candidates r1 = candidates r2"
  then have "context_line (ctx r1) = context_line (ctx r2)"
    by (intro context_line_fields) (simp_all add: py_get_def)
  with a show "build_prompt r1 = build_prompt r2"
    by (simp add: build_prompt_def split: sum.split)
qed

text \<open>
  The theorem of claim C9 on the example request, and on the same request with the
  fields of its context given in the opposite order.
\<close>

theorem prompt_is_function_of_request_witness:
  "build_prompt req_example =
     Inr (''CTX: 2.0,0.50,1,0, 0'' @ NL # GOAL @ NL # JSON_ONLY @ NL # ''CANDIDATES:'' @
          NL # ''0:120,LW'') \<and>
   build_prompt req_reordered = build_prompt req_example"
proof -
  note th = prompt_is_function_of_request
    [of req_example "''CTX: 2.0,0.50,1,0, 0''" "[''0:120,LW'']" req_reordered req_example]
  have 1: "build_prompt req_example =
     Inr (''CTX: 2.0,0.50,1,0, 0'' @ NL # GOAL @ NL # JSON_ONLY @ NL # ''CANDIDATES:'' @
          NL # ''0:120,LW'')"
    using th context_line_ctx_example candidate_line_cand_example
    by (simp add: req_example_def)
  have 2: "build_prompt req_reordered = build_prompt req_example"
    using th by (simp add: req_reordered_def req_example_def ctx_reordered_def ctx_example_def)
  from 1 2 show ?thesis by simp
qed

end
